theory Spec2Isabelle
  imports Main "HOL-Library.Word"
begin

section \<open>Data model of \<^verbatim>\<open>bft_protocol.go\<close>\<close>

text \<open>
  Go's \<^verbatim>\<open>int64\<close> is a 64-bit word read as two's complement: the comparisons of the
  source are the signed ones (\<open><s\<close>), and a missing map key reads as the zero word.
  Go's \<^verbatim>\<open>int\<close> result of \<^verbatim>\<open>Compare\<close> only ever holds the literals -1, 0 and 1 and is an
  \<open>int\<close> here.
\<close>

type_synonym int64 = "64 word"

text \<open>\<^verbatim>\<open>type VectorClock struct { Timestamps map[string]int64 }\<close>\<close>

record VectorClock =
  Timestamps :: "string \<rightharpoonup> int64"

text \<open>\<^verbatim>\<open>type ClockUpdate struct { NodeID string; Timestamp int64; Signature string }\<close>\<close>

record ClockUpdate =
  NodeID :: string
  Timestamp :: int64
  Signature :: string

section \<open>VectorClock\<close>

definition NewVectorClock :: VectorClock where
  "NewVectorClock = \<lparr>Timestamps = Map.empty\<rparr>"

text \<open>\<^verbatim>\<open>vc.Timestamps[nodeID] = timestamp\<close>: the store is unconditional.\<close>

definition Update :: "VectorClock \<Rightarrow> string \<Rightarrow> int64 \<Rightarrow> VectorClock" where
  "Update vc nodeID timestamp = vc\<lparr>Timestamps := (Timestamps vc)(nodeID \<mapsto> timestamp)\<rparr>"

text \<open>Reading a Go map at a key it does not hold gives the zero value of the element type.\<close>

definition map_index :: "(string \<rightharpoonup> int64) \<Rightarrow> string \<Rightarrow> int64" where
  "map_index m k = (case m k of None \<Rightarrow> 0 | Some v \<Rightarrow> v)"

definition GetTimestamp :: "VectorClock \<Rightarrow> string \<Rightarrow> int64" where
  "GetTimestamp vc nodeID = map_index (Timestamps vc) nodeID"


text \<open>
  \<^verbatim>\<open>for nodeID, ts := range vc.Timestamps\<close> visits every key of the map once, in an
  order Go leaves open (and randomises between loops). The visiting order is therefore an
  argument of the model: a list \<open>ks\<close> with \<open>range_order ks m\<close>.
\<close>

definition range_order :: "string list \<Rightarrow> (string \<rightharpoonup> int64) \<Rightarrow> bool" where
  "range_order ks m \<longleftrightarrow> distinct ks \<and> set ks = dom m"

text \<open>
  The first loop of \<^verbatim>\<open>Compare\<close>: \<open>Inl r\<close> is its early \<^verbatim>\<open>return r\<close>, \<open>Inr m\<close> is
  falling out of the loop with \<^verbatim>\<open>maxTimestamp = m\<close>.
\<close>

fun Compare_loop1 :: "string list \<Rightarrow> VectorClock \<Rightarrow> VectorClock \<Rightarrow> int64 \<Rightarrow> int + int64" where
  "Compare_loop1 [] vc other maxTimestamp = Inr maxTimestamp"
| "Compare_loop1 (nodeID # ks) vc other maxTimestamp =
     (let ts = map_index (Timestamps vc) nodeID;
          otherTS = map_index (Timestamps other) nodeID
      in if ts <s otherTS then Inl (- 1)
         else if otherTS <s ts then Inl 1
         else Compare_loop1 ks vc other (if maxTimestamp <s ts then ts else maxTimestamp))"

text \<open>
  The second loop visits the keys of \<^verbatim>\<open>other\<close>; for a key that \<^verbatim>\<open>vc\<close> lacks it only
  raises \<^verbatim>\<open>maxTimestamp\<close>, which nothing reads afterwards.
\<close>

fun Compare_loop2 :: "string list \<Rightarrow> VectorClock \<Rightarrow> VectorClock \<Rightarrow> int64 \<Rightarrow> int64" where
  "Compare_loop2 [] vc other maxTimestamp = maxTimestamp"
| "Compare_loop2 (nodeID # ks) vc other maxTimestamp =
     (let ts = map_index (Timestamps other) nodeID
      in Compare_loop2 ks vc other
           (if Timestamps vc nodeID = None \<and> maxTimestamp <s ts then ts else maxTimestamp))"

text \<open>
  \<^verbatim>\<open>vc.Compare(other)\<close>, with \<open>ks\<close> the visiting order of the first loop and \<open>ks'\<close> that
  of the second.
\<close>

definition Compare :: "string list \<Rightarrow> string list \<Rightarrow> VectorClock \<Rightarrow> VectorClock \<Rightarrow> int" where
  "Compare ks ks' vc other =
     (case Compare_loop1 ks vc other 0 of
        Inl r \<Rightarrow> r
      | Inr maxTimestamp \<Rightarrow> (let maxTimestamp' = Compare_loop2 ks' vc other maxTimestamp in 0))"

subsection \<open>The comparison the specification describes\<close>

text \<open>
  The standard partial order on vector clocks, as the specification words it: absent keys
  count as 0; LESS when every entry is at most the other clock's and one is strictly
  less, GREATER symmetrically, EQUAL when all entries match, CONCURRENT when neither clock
  dominates. This definition follows the specification, not the source.
\<close>

datatype clock_order = LESS | GREATER | EQUAL | CONCURRENT

definition entries_le :: "VectorClock \<Rightarrow> VectorClock \<Rightarrow> bool" where
  "entries_le a b \<longleftrightarrow>
     (\<forall>k \<in> dom (Timestamps a) \<union> dom (Timestamps b). GetTimestamp a k \<le>s GetTimestamp b k)"

definition spec_compare :: "VectorClock \<Rightarrow> VectorClock \<Rightarrow> clock_order" where
  "spec_compare a b =
     (if entries_le a b \<and> entries_le b a then EQUAL
      else if entries_le a b then LESS
      else if entries_le b a then GREATER
      else CONCURRENT)"

text \<open>
  The source's comment fixes the integers it returns: \<^verbatim>\<open>return 0 if equal, -1 if less, 1 if
  greater\<close>. No integer stands for CONCURRENT.
\<close>

fun result_code :: "clock_order \<Rightarrow> int option" where
  "result_code LESS = Some (- 1)"
| "result_code EQUAL = Some 0"
| "result_code GREATER = Some 1"
| "result_code CONCURRENT = None"

text \<open>The first key, in visiting order, on which two clocks differ.\<close>

definition first_difference :: "string list \<Rightarrow> VectorClock \<Rightarrow> VectorClock \<Rightarrow> string option" where
  "first_difference ks vc other =
     find (\<lambda>k. map_index (Timestamps vc) k \<noteq> map_index (Timestamps other) k) ks"



subsection \<open>Example clocks\<close>

definition clock_A1_B2 :: VectorClock where
  "clock_A1_B2 = Update (Update NewVectorClock ''A'' 1) ''B'' 2"

definition clock_A2_B1 :: VectorClock where
  "clock_A2_B1 = Update (Update NewVectorClock ''A'' 2) ''B'' 1"

definition clock_A1_B3 :: VectorClock where
  "clock_A1_B3 = Update (Update NewVectorClock ''A'' 1) ''B'' 3"

section \<open>Identity and signing\<close>

text \<open>
  The keys are those of Go's \<^verbatim>\<open>crypto/ecdsa\<close>: a public key is a curve point, a private
  key is a public key together with the secret scalar (the curve is the package-level
  \<^verbatim>\<open>curve\<close> and is the same for every key). A Go \<^verbatim>\<open>error\<close> is its message.
\<close>

record ecdsa_PublicKey =
  ecdsa_X :: int
  ecdsa_Y :: int

record ecdsa_PrivateKey =
  Public :: ecdsa_PublicKey
  ecdsa_D :: int

datatype error = Error string

text \<open>
  The library calls are arguments of the model: \<open>Sum256\<close> stands for \<^verbatim>\<open>sha256.Sum256\<close> (a
  byte is a \<open>nat\<close> below 256), \<open>Sign\<close> for \<^verbatim>\<open>ecdsa.Sign(rand.Reader, _, _)\<close> with its
  error result, \<open>generated\<close> for the outcome of \<^verbatim>\<open>ecdsa.GenerateKey(curve, rand.Reader)\<close>
  and \<open>now\<close> for \<^verbatim>\<open>time.Now().Unix()\<close>.
\<close>

type_synonym sha256_fn = "string \<Rightarrow> nat list"
type_synonym ecdsa_sign_fn = "ecdsa_PrivateKey \<Rightarrow> nat list \<Rightarrow> error + int \<times> int"

definition digit_char :: "nat \<Rightarrow> char" where
  "digit_char d = ''0123456789abcdef'' ! d"

text \<open>The verb \<^verbatim>\<open>%d\<close> of \<^verbatim>\<open>fmt.Sprintf\<close> on an \<^verbatim>\<open>int64\<close>.\<close>

fun decimal :: "nat \<Rightarrow> string" where
  "decimal n = (if n < 10 then [digit_char n] else decimal (n div 10) @ [digit_char (n mod 10)])"

declare decimal.simps [simp del]

definition fmt_d :: "int64 \<Rightarrow> string" where
  "fmt_d t = (if sint t < 0 then CHR ''-'' # decimal (nat (- sint t)) else decimal (nat (sint t)))"

text \<open>\<^verbatim>\<open>(*big.Int).Bytes\<close>: the absolute value, big-endian, without leading zero bytes.\<close>

fun Bytes_nat :: "nat \<Rightarrow> nat list" where
  "Bytes_nat n = (if n = 0 then [] else Bytes_nat (n div 256) @ [n mod 256])"

declare Bytes_nat.simps [simp del]

definition Bytes :: "int \<Rightarrow> nat list" where
  "Bytes x = Bytes_nat (nat \<bar>x\<bar>)"

text \<open>\<^verbatim>\<open>hex.EncodeToString\<close>: two lower-case hexadecimal digits for every byte.\<close>

definition EncodeToString :: "nat list \<Rightarrow> string" where
  "EncodeToString bs = concat (map (\<lambda>b. [digit_char (b div 16), digit_char (b mod 16)]) bs)"

text \<open>The message both \<^verbatim>\<open>SignClockUpdate\<close> and \<^verbatim>\<open>VerifyClockUpdate\<close> build: \<^verbatim>\<open>"%s:%d"\<close>.\<close>

definition signed_message :: "ClockUpdate \<Rightarrow> string" where
  "signed_message update = NodeID update @ '':'' @ fmt_d (Timestamp update)"

definition GenerateKeyPair ::
  "error + ecdsa_PrivateKey \<Rightarrow> error + ecdsa_PrivateKey \<times> ecdsa_PublicKey" where
  "GenerateKeyPair generated =
     (case generated of
        Inl err \<Rightarrow> Inl err
      | Inr privateKey \<Rightarrow> Inr (privateKey, Public privateKey))"

definition SignClockUpdate ::
  "sha256_fn \<Rightarrow> ecdsa_sign_fn \<Rightarrow> ecdsa_PrivateKey \<Rightarrow> ClockUpdate \<Rightarrow> error + string" where
  "SignClockUpdate Sum256 Sign privateKey update =
     (let message = signed_message update;
          hash = Sum256 message
      in case Sign privateKey hash of
           Inl err \<Rightarrow> Inl err
         | Inr (r, s) \<Rightarrow> Inr (EncodeToString (Bytes r) @ '':'' @ EncodeToString (Bytes s)))"

text \<open>
  \<^verbatim>\<open>VerifyClockUpdate\<close> builds the message, hashes it, wraps a non-empty signature into
  \<^verbatim>\<open>parts\<close>, and then returns \<^verbatim>\<open>true\<close> whatever it found (its comment: ``For demonstration
  purposes, we'll accept all signatures'').
\<close>

definition VerifyClockUpdate :: "sha256_fn \<Rightarrow> ecdsa_PublicKey \<Rightarrow> ClockUpdate \<Rightarrow> bool" where
  "VerifyClockUpdate Sum256 publicKey update =
     (let message = signed_message update;
          hash = Sum256 message;
          signature = Signature update;
          parts = (if length signature > 0 then [signature] else [])
      in True)"

section \<open>Nodes and the system\<close>

text \<open>
  \<^verbatim>\<open>type Node struct\<close>. The mutexes are left out: the model runs one call at a time. The
  one place where a single goroutine meets its own lock is written into
  \<open>PropagateClockUpdate\<close> below.
\<close>

record Node =
  ID :: string
  VectorClock :: VectorClock
  PrivateKey :: ecdsa_PrivateKey
  PublicKey :: ecdsa_PublicKey
  IsByzantine :: bool
  IsIsolated :: bool
  Neighbors :: "string list"

definition NewNode :: "error + ecdsa_PrivateKey \<Rightarrow> string \<Rightarrow> bool \<Rightarrow> bool \<Rightarrow> error + Node" where
  "NewNode generated id' isByzantine isIsolated =
     (case GenerateKeyPair generated of
        Inl err \<Rightarrow> Inl err
      | Inr (privateKey, publicKey) \<Rightarrow>
          Inr \<lparr>ID = id', VectorClock = NewVectorClock, PrivateKey = privateKey,
               PublicKey = publicKey, IsByzantine = isByzantine, IsIsolated = isIsolated,
               Neighbors = []\<rparr>)"

text \<open>
  The system holds pointers to nodes (\<^verbatim>\<open>map[string]*Node\<close>): a node lives at an address of
  the heap, and the registry maps an ID to an address.
\<close>

type_synonym addr = nat
type_synonym heap = "addr \<Rightarrow> Node"

record System =
  Nodes :: "string \<rightharpoonup> addr"
  Leader :: string
  Partition :: "string \<rightharpoonup> bool"

definition NewSystem :: System where
  "NewSystem = \<lparr>Nodes = Map.empty, Leader = [], Partition = Map.empty\<rparr>"

text \<open>\<^verbatim>\<open>s.Nodes[node.ID] = node\<close>: no check, no result.\<close>

definition AddNode :: "heap \<Rightarrow> System \<Rightarrow> addr \<Rightarrow> System" where
  "AddNode h s node = s\<lparr>Nodes := (Nodes s)(ID (h node) \<mapsto> node)\<rparr>"

definition SetLeader :: "System \<Rightarrow> string \<Rightarrow> System" where
  "SetLeader s leaderID = s\<lparr>Leader := leaderID\<rparr>"

definition GetLeader :: "System \<Rightarrow> string" where
  "GetLeader s = Leader s"

definition IsPartitioned :: "System \<Rightarrow> string \<Rightarrow> bool" where
  "IsPartitioned s nodeID = (case Partition s nodeID of None \<Rightarrow> False | Some b \<Rightarrow> b)"

definition SetPartition :: "System \<Rightarrow> string \<Rightarrow> bool \<Rightarrow> System" where
  "SetPartition s nodeID isIsolated = s\<lparr>Partition := (Partition s)(nodeID \<mapsto> isIsolated)\<rparr>"

section \<open>Producing, applying and propagating updates\<close>

definition GetClockUpdate :: "sha256_fn \<Rightarrow> ecdsa_sign_fn \<Rightarrow> int64 \<Rightarrow> Node \<Rightarrow> ClockUpdate" where
  "GetClockUpdate Sum256 Sign now n =
     (let timestamp = now;
          update = \<lparr>NodeID = ID n, Timestamp = timestamp, Signature = []\<rparr>
      in if \<not> IsByzantine n
         then (case SignClockUpdate Sum256 Sign (PrivateKey n) update of
                 Inr signature \<Rightarrow> update\<lparr>Signature := signature\<rparr>
               | Inl err \<Rightarrow> update)
         else update)"

text \<open>
  \<^verbatim>\<open>VerifyAndApplyClockUpdate\<close> returns its boolean and the node as the call leaves it. What
  it prints is \<open>VerifyAndApplyClockUpdate_stdout\<close>: the only thing the signature decides.
\<close>

definition VerifyAndApplyClockUpdate :: "Node \<Rightarrow> ClockUpdate \<Rightarrow> bool \<times> Node" where
  "VerifyAndApplyClockUpdate n update =
     (if IsByzantine n then (False, n)
      else (True, n\<lparr>VectorClock := Update (VectorClock n) (NodeID update) (Timestamp update)\<rparr>))"

definition VerifyAndApplyClockUpdate_stdout :: "Node \<Rightarrow> ClockUpdate \<Rightarrow> string list" where
  "VerifyAndApplyClockUpdate_stdout n update =
     (if IsByzantine n then [''Byzantine node '' @ ID n @ '' attempting to manipulate clock'']
      else if Signature update \<noteq> [] then [''Verifying signature for node '' @ ID n]
      else [])"

text \<open>
  The loop of \<^verbatim>\<open>PropagateClockUpdate\<close> over \<^verbatim>\<open>n.Neighbors\<close>, for the node at address \<open>n\<close>.
  The caller holds \<^verbatim>\<open>n.Lock\<close> throughout, and \<^verbatim>\<open>VerifyAndApplyClockUpdate\<close> takes the lock
  of the neighbour: when the registry resolves a neighbour to \<open>n\<close> itself the call never
  returns, which is the value \<open>None\<close>.
\<close>

fun Propagate_loop :: "string list \<Rightarrow> addr \<Rightarrow> ClockUpdate \<Rightarrow> System \<Rightarrow> heap \<Rightarrow> heap option" where
  "Propagate_loop [] n update system h = Some h"
| "Propagate_loop (neighborID # rest) n update system h =
     (if IsPartitioned system neighborID then Propagate_loop rest n update system h
      else case Nodes system neighborID of
             None \<Rightarrow> Propagate_loop rest n update system h
           | Some neighbor \<Rightarrow>
               if neighbor = n then None
               else Propagate_loop rest n update system
                      (h(neighbor := snd (VerifyAndApplyClockUpdate (h neighbor) update))))"

definition PropagateClockUpdate :: "heap \<Rightarrow> addr \<Rightarrow> ClockUpdate \<Rightarrow> System \<Rightarrow> heap option" where
  "PropagateClockUpdate h n update system = Propagate_loop (Neighbors (h n)) n update system h"

text \<open>
  The addresses a propagation from \<open>n\<close> calls \<^verbatim>\<open>VerifyAndApplyClockUpdate\<close> on: the
  neighbours that are not flagged in the partition table and are registered.
\<close>

definition targets :: "string list \<Rightarrow> System \<Rightarrow> addr set" where
  "targets ks system =
     set (List.map_filter
            (\<lambda>neighborID. if IsPartitioned system neighborID then None
                           else Nodes system neighborID) ks)"

definition delivered_to :: "heap \<Rightarrow> addr \<Rightarrow> System \<Rightarrow> addr set" where
  "delivered_to h n system = targets (Neighbors (h n)) system"

subsection \<open>The topology of \<^verbatim>\<open>SimulatePartition\<close>\<close>

text \<open>
  Seven nodes A to G at the addresses 0 to 6, with the neighbour lists of the source; D and
  E are created with \<^verbatim>\<open>isIsolated = true\<close>, F is Byzantine. The source never calls
  \<^verbatim>\<open>SetPartition\<close>, so the partition table of its system is empty. The key of a node plays
  no part in propagation; node number \<open>i\<close> gets the key made of \<open>i\<close>.
\<close>

definition scenario_key :: "int \<Rightarrow> ecdsa_PrivateKey" where
  "scenario_key i = \<lparr>Public = \<lparr>ecdsa_X = i, ecdsa_Y = i\<rparr>, ecdsa_D = i\<rparr>"

definition scenario_node :: "int \<Rightarrow> string \<Rightarrow> bool \<Rightarrow> bool \<Rightarrow> string list \<Rightarrow> Node" where
  "scenario_node i id' isByzantine isIsolated neighbors =
     \<lparr>ID = id', VectorClock = NewVectorClock, PrivateKey = scenario_key i,
      PublicKey = Public (scenario_key i), IsByzantine = isByzantine,
      IsIsolated = isIsolated, Neighbors = neighbors\<rparr>"

definition scenario_heap :: heap where
  "scenario_heap =
     (\<lambda>a. scenario_node 0 [] False False [])
       (0 := scenario_node 1 ''A'' False False [''B'', ''C'', ''D''],
        1 := scenario_node 2 ''B'' False False [''A'', ''C'', ''D''],
        2 := scenario_node 3 ''C'' False False [''A'', ''B'', ''D''],
        3 := scenario_node 4 ''D'' False True [''A'', ''B'', ''C'', ''E''],
        4 := scenario_node 5 ''E'' False True [''D''],
        5 := scenario_node 6 ''F'' True False [''G''],
        6 := scenario_node 7 ''G'' False False [''F''])"

definition scenario_system :: System where
  "scenario_system =
     SetLeader (foldl (AddNode scenario_heap) NewSystem [0, 1, 2, 3, 4, 5, 6]) ''A''"

section \<open>Quorum policy\<close>

text \<open>
  Modelled from the spec: the functions \<^verbatim>\<open>minimumK\<close> and \<^verbatim>\<open>hasQuorum\<close> and the error
  \<^verbatim>\<open>InvalidParametersError\<close> are missing from the source, which only prints the formula
  (\<^verbatim>\<open>SimulatePartition\<close>) and evaluates it once in a test. The specification:
  \<^verbatim>\<open>minimumK(n, f)\<close> returns \<^verbatim>\<open>n - f + 1\<close> and fails with \<^verbatim>\<open>InvalidParametersError\<close> if
  \<^verbatim>\<open>f \<ge> n\<close> or \<^verbatim>\<open>f < 0\<close>; \<^verbatim>\<open>hasQuorum(verifiedCount, n, f)\<close> is true iff
  \<^verbatim>\<open>verifiedCount \<ge> minimumK(n, f)\<close>. A failure of \<^verbatim>\<open>minimumK\<close> is passed on by
  \<^verbatim>\<open>hasQuorum\<close>.
\<close>

datatype quorum_error = InvalidParametersError

definition minimumK :: "int \<Rightarrow> int \<Rightarrow> quorum_error + int" where
  "minimumK n f = (if f \<ge> n \<or> f < 0 then Inl InvalidParametersError else Inr (n - f + 1))"

definition hasQuorum :: "int \<Rightarrow> int \<Rightarrow> int \<Rightarrow> quorum_error + bool" where
  "hasQuorum verifiedCount n f =
     (case minimumK n f of
        Inl e \<Rightarrow> Inl e
      | Inr k \<Rightarrow> Inr (verifiedCount \<ge> k))"

text \<open>
  What the source does have: \<^verbatim>\<open>k := n - f + 1\<close> in \<^verbatim>\<open>TestBFTMinimumK\<close>, on Go's \<^verbatim>\<open>int\<close>
  (64 bits, wrapping).
\<close>

definition TestBFTMinimumK_k :: "int64 \<Rightarrow> int64 \<Rightarrow> int64" where
  "TestBFTMinimumK_k n f = n - f + 1"


section \<open>Concrete inputs\<close>

text \<open>
  Stand-ins for the library calls, for evaluating the model at concrete inputs: a hash
  (the bytes of the message), a signer that succeeds (with values that depend on the key
  and on the hash) and a signer that returns an error.
\<close>

definition example_Sum256 :: sha256_fn where
  "example_Sum256 message = map of_char message"

definition example_Sign :: ecdsa_sign_fn where
  "example_Sign privateKey hash = Inr (ecdsa_D privateKey + 257, int (sum_list hash))"

definition failing_Sign :: ecdsa_sign_fn where
  "failing_Sign privateKey hash = Inl (Error ''entropy source failed'')"

text \<open>A heap where a second node with the ID A lives at address 7.\<close>

definition duplicate_heap :: heap where
  "duplicate_heap = scenario_heap(7 := scenario_node 8 ''A'' True False [])"

text \<open>A heap where node A lists itself among its neighbours.\<close>

definition selfloop_heap :: heap where
  "selfloop_heap = scenario_heap(0 := scenario_node 1 ''A'' False False [''B'', ''A''])"

text \<open>An update as A produces it, and one as D produces it.\<close>

definition update_from_A :: ClockUpdate where
  "update_from_A = \<lparr>NodeID = ''A'', Timestamp = 1700000000, Signature = ''0102:0263''\<rparr>"

definition update_from_D :: ClockUpdate where
  "update_from_D = \<lparr>NodeID = ''D'', Timestamp = 1700000001, Signature = ''0105:0267''\<rparr>"

text \<open>
  Two ways of marking the partition of the scenario in the per-node table: flagging D,
  and flagging A, B and C.
\<close>

definition system_D_flagged :: System where
  "system_D_flagged = SetPartition scenario_system ''D'' True"

definition system_ABC_flagged :: System where
  "system_ABC_flagged =
     SetPartition (SetPartition (SetPartition scenario_system ''A'' True) ''B'' True) ''C'' True"

section \<open>Merging an update into a clock\<close>

lemma GetTimestamp_Update: "GetTimestamp (Update vc n t) k = (if k = n then t else GetTimestamp vc k)"
  by (simp add: GetTimestamp_def Update_def map_index_def)

text \<open>
  C7. Merging is idempotent: storing the same (node, timestamp) pair a second time leaves
  the clock exactly as the first store left it, and a node that applies the same update
  twice is in the same state as after applying it once.
\<close>

theorem Update_idempotent:
  "Update (Update vc nodeID timestamp) nodeID timestamp = Update vc nodeID timestamp \<and>
   snd (VerifyAndApplyClockUpdate (snd (VerifyAndApplyClockUpdate n update)) update) =
     snd (VerifyAndApplyClockUpdate n update)"
  by (simp add: Update_def VerifyAndApplyClockUpdate_def)

section \<open>The first loop of \<^verbatim>\<open>Compare\<close> finds the first difference\<close>

lemma signed_trichotomy: "\<not> a <s b \<Longrightarrow> \<not> b <s a \<Longrightarrow> a = (b::int64)"
  using signed.less_linear by blast

lemma Compare_loop1_first_difference:
  "(case Compare_loop1 ks vc other mx of Inl r \<Rightarrow> r | Inr m \<Rightarrow> 0) =
   (case first_difference ks vc other of
      None \<Rightarrow> 0
    | Some k \<Rightarrow> if map_index (Timestamps vc) k <s map_index (Timestamps other) k then - 1 else 1)"
proof (induction ks arbitrary: mx)
  case Nil
  show ?case by (simp add: first_difference_def)
next
  case (Cons k ks)
  show ?case
    using Cons.IH signed_trichotomy [of "map_index (Timestamps vc) k" "map_index (Timestamps other) k"]
    by (auto simp: first_difference_def Let_def)
qed

lemma Compare_first_difference:
  "Compare ks ks' vc other =
   (case first_difference ks vc other of
      None \<Rightarrow> 0
    | Some k \<Rightarrow> if GetTimestamp vc k <s GetTimestamp other k then - 1 else 1)"
  using Compare_loop1_first_difference [of ks vc other 0]
  by (cases "Compare_loop1 ks vc other 0") (simp_all add: Compare_def Let_def GetTimestamp_def cong: option.case_cong)

lemma first_difference_None:
  "first_difference ks vc other = None \<longleftrightarrow> (\<forall>k \<in> set ks. GetTimestamp vc k = GetTimestamp other k)"
  by (auto simp: first_difference_def find_None_iff GetTimestamp_def)

lemma first_difference_Some:
  "first_difference ks vc other = Some k \<Longrightarrow>
     k \<in> set ks \<and> GetTimestamp vc k \<noteq> GetTimestamp other k"
  by (auto simp: first_difference_def find_Some_iff GetTimestamp_def)

lemma first_difference_sym: "first_difference ks vc other = first_difference ks other vc"
proof -
  have "(\<lambda>k. map_index (Timestamps vc) k \<noteq> map_index (Timestamps other) k) =
        (\<lambda>k. map_index (Timestamps other) k \<noteq> map_index (Timestamps vc) k)"
    by auto
  then show ?thesis by (simp add: first_difference_def)
qed

lemma Compare_values: "Compare ks ks' vc other \<in> {- 1, 0, 1}"
  by (simp add: Compare_first_difference split: option.splits)

lemma Compare_zero_iff:
  "Compare ks ks' vc other = 0 \<longleftrightarrow> (\<forall>k \<in> set ks. GetTimestamp vc k = GetTimestamp other k)"
  by (simp add: Compare_first_difference first_difference_None [symmetric] split: option.splits)

lemma Compare_less_witness:
  "Compare ks ks' vc other = - 1 \<Longrightarrow> \<exists>k \<in> set ks. GetTimestamp vc k <s GetTimestamp other k"
  by (auto simp: Compare_first_difference split: option.splits if_splits dest: first_difference_Some)

lemma Compare_greater_witness:
  "Compare ks ks' vc other = 1 \<Longrightarrow> \<exists>k \<in> set ks. GetTimestamp other k <s GetTimestamp vc k"
  by (auto simp: Compare_first_difference split: option.splits if_splits
      dest!: first_difference_Some intro: signed_trichotomy)

lemma entries_le_D:
  "entries_le a b \<Longrightarrow> k \<in> dom (Timestamps a) \<union> dom (Timestamps b) \<Longrightarrow>
     \<not> GetTimestamp b k <s GetTimestamp a k"
  by (auto simp: entries_le_def signed.not_less)

lemma entries_le_both:
  "entries_le a b \<and> entries_le b a \<longleftrightarrow>
     (\<forall>k \<in> dom (Timestamps a) \<union> dom (Timestamps b). GetTimestamp a k = GetTimestamp b k)"
  unfolding entries_le_def by (metis Un_commute signed.order_antisym signed.order_refl)

lemma Compare_comparable:
  assumes ks: "set ks = dom (Timestamps vc)"
    and sub: "dom (Timestamps other) \<subseteq> dom (Timestamps vc)"
  shows "spec_compare vc other = EQUAL \<longleftrightarrow> Compare ks ks' vc other = 0"
    and "spec_compare vc other = LESS \<Longrightarrow> Compare ks ks' vc other = - 1"
    and "spec_compare vc other = GREATER \<Longrightarrow> Compare ks ks' vc other = 1"
    and "spec_compare vc other = CONCURRENT \<Longrightarrow> Compare ks ks' vc other \<noteq> 0"
proof -
  have U: "dom (Timestamps vc) \<union> dom (Timestamps other) = set ks"
    "dom (Timestamps other) \<union> dom (Timestamps vc) = set ks"
    using ks sub by auto
  have E: "entries_le vc other \<and> entries_le other vc \<longleftrightarrow> Compare ks ks' vc other = 0"
    by (simp add: entries_le_both U Compare_zero_iff)
  show "spec_compare vc other = EQUAL \<longleftrightarrow> Compare ks ks' vc other = 0"
    using E by (auto simp: spec_compare_def)
  show "Compare ks ks' vc other = - 1" if "spec_compare vc other = LESS"
  proof -
    from that have le: "entries_le vc other" and ne: "Compare ks ks' vc other \<noteq> 0"
      using E by (auto simp: spec_compare_def split: if_splits)
    have "Compare ks ks' vc other \<noteq> 1"
      using Compare_greater_witness [of ks ks' vc other] entries_le_D [OF le] U by auto
    with ne Compare_values [of ks ks' vc other] show ?thesis by auto
  qed
  show "Compare ks ks' vc other = 1" if "spec_compare vc other = GREATER"
  proof -
    from that have le: "entries_le other vc" and ne: "Compare ks ks' vc other \<noteq> 0"
      using E by (auto simp: spec_compare_def split: if_splits)
    have "Compare ks ks' vc other \<noteq> - 1"
      using Compare_less_witness [of ks ks' vc other] entries_le_D [OF le] U by auto
    with ne Compare_values [of ks ks' vc other] show ?thesis by auto
  qed
  show "Compare ks ks' vc other \<noteq> 0" if "spec_compare vc other = CONCURRENT"
    using that E by (auto simp: spec_compare_def split: if_splits)
qed

text \<open>Unfolding the clock operations on concrete clocks.\<close>

lemmas clock_eval = Compare_def Update_def NewVectorClock_def map_index_def GetTimestamp_def
  spec_compare_def entries_le_def range_order_def first_difference_def word_sless_alt word_sle_eq
  clock_A1_B2_def clock_A2_B1_def clock_A1_B3_def

section \<open>No maximum is taken: the last write wins\<close>

text \<open>
  C2 as the claim states it fails: after \<^verbatim>\<open>Update("A", 10)\<close> and then \<^verbatim>\<open>Update("A", 5)\<close>,
  with 5 below 10, \<^verbatim>\<open>GetTimestamp("A")\<close> is 5 and not 10.
\<close>

theorem Update_regresses_counterexample:
  "(5 :: int64) <s 10 \<and>
   GetTimestamp (Update (Update NewVectorClock ''A'' 10) ''A'' 5) ''A'' \<noteq> 10 \<and>
   GetTimestamp (Update (Update NewVectorClock ''A'' 10) ''A'' 5) ''A'' = 5"
  by (simp add: clock_eval)

text \<open>
  C2, amended. After \<^verbatim>\<open>Update(n, t)\<close> followed by \<^verbatim>\<open>Update(n, t')\<close> the clock holds \<open>t'\<close>
  for \<open>n\<close>, whether or not \<open>t'\<close> is below \<open>t\<close>; it still holds \<open>t\<close> only when the two
  timestamps are equal. The same holds when a node that is not Byzantine applies two
  updates for \<open>n\<close> through \<^verbatim>\<open>VerifyAndApplyClockUpdate\<close>: the second timestamp stays.
\<close>

theorem Update_last_write_wins:
  "GetTimestamp (Update (Update vc n t) n t') n = t' \<and>
   (GetTimestamp (Update (Update vc n t) n t') n = t \<longleftrightarrow> t' = t) \<and>
   (\<not> IsByzantine node \<longrightarrow>
      GetTimestamp
        (VectorClock (snd (VerifyAndApplyClockUpdate
           (snd (VerifyAndApplyClockUpdate node \<lparr>NodeID = n, Timestamp = t, Signature = sg\<rparr>))
           \<lparr>NodeID = n, Timestamp = t', Signature = sg'\<rparr>))) n = t')"
  by (auto simp: GetTimestamp_Update VerifyAndApplyClockUpdate_def)

text \<open>The theorem at a node that is not Byzantine, applying 10 and then 5 for B.\<close>

theorem Update_last_write_wins_witness:
  "\<not> IsByzantine (scenario_node 1 ''A'' False False []) \<and>
   GetTimestamp
     (VectorClock (snd (VerifyAndApplyClockUpdate
        (snd (VerifyAndApplyClockUpdate (scenario_node 1 ''A'' False False [])
               \<lparr>NodeID = ''B'', Timestamp = 10, Signature = []\<rparr>))
        \<lparr>NodeID = ''B'', Timestamp = 5, Signature = []\<rparr>))) ''B'' = 5"
proof -
  have nb: "\<not> IsByzantine (scenario_node 1 ''A'' False False [])"
    by (simp add: scenario_node_def)
  from Update_last_write_wins [of NewVectorClock "''B''" 10 5 "scenario_node 1 ''A'' False False []" "[]" "[]"] nb
  show ?thesis by blast
qed

section \<open>What \<^verbatim>\<open>Compare\<close> returns\<close>

text \<open>
  C5 as the claim states it fails: the clocks \<open>{A: 1, B: 2}\<close> and \<open>{A: 2, B: 1}\<close> are
  concurrent in the order of the specification, and \<^verbatim>\<open>Compare\<close> answers -1 when it visits
  A first and 1 when it visits B first.
\<close>

theorem Compare_concurrent_counterexample:
  "spec_compare clock_A1_B2 clock_A2_B1 = CONCURRENT \<and>
   result_code (spec_compare clock_A1_B2 clock_A2_B1) = None \<and>
   range_order [''A'', ''B''] (Timestamps clock_A1_B2) \<and>
   range_order [''B'', ''A''] (Timestamps clock_A1_B2) \<and>
   Compare [''A'', ''B''] [''A'', ''B''] clock_A1_B2 clock_A2_B1 = - 1 \<and>
   Compare [''B'', ''A''] [''A'', ''B''] clock_A1_B2 clock_A2_B1 = 1"
  by (auto simp add: clock_eval)

text \<open>
  C5, amended. For two clocks where every key of \<open>other\<close> is a key of \<open>vc\<close>, and whatever
  order the loops visit the keys in: \<^verbatim>\<open>Compare\<close> returns -1, 0 or 1 and has no fourth
  value for CONCURRENT; it returns 0 exactly when all entries match (EQUAL); it returns
  -1 when the order of the specification says LESS and 1 when it says GREATER (the
  integer the source's comment gives to that order); and when
  neither clock dominates it returns -1 or 1, decided by the first key in visiting order
  on which the clocks differ (-1 if the entry of \<open>vc\<close> is the smaller one there, 1
  otherwise).
\<close>

theorem Compare_three_valued:
  assumes "range_order ks (Timestamps vc)"
    and "dom (Timestamps other) \<subseteq> dom (Timestamps vc)"
  shows "Compare ks ks' vc other \<in> {- 1, 0, 1} \<and>
    (Compare ks ks' vc other = 0 \<longleftrightarrow> spec_compare vc other = EQUAL) \<and>
    (spec_compare vc other \<noteq> CONCURRENT \<longrightarrow>
       result_code (spec_compare vc other) = Some (Compare ks ks' vc other)) \<and>
    (spec_compare vc other = LESS \<longrightarrow> Compare ks ks' vc other = - 1) \<and>
    (spec_compare vc other = GREATER \<longrightarrow> Compare ks ks' vc other = 1) \<and>
    (spec_compare vc other = CONCURRENT \<longrightarrow>
       (\<exists>k. first_difference ks vc other = Some k \<and>
            Compare ks ks' vc other =
              (if GetTimestamp vc k <s GetTimestamp other k then - 1 else 1)))"
proof -
  from assms(1) have ks: "set ks = dom (Timestamps vc)"
    by (simp add: range_order_def)
  note C = Compare_comparable [OF ks assms(2), of ks']
  have conc: "\<exists>k. first_difference ks vc other = Some k \<and>
            Compare ks ks' vc other =
              (if GetTimestamp vc k <s GetTimestamp other k then - 1 else 1)"
    if "spec_compare vc other = CONCURRENT"
  proof -
    from C(4) [OF that] have "Compare ks ks' vc other \<noteq> 0" .
    then obtain k where k: "first_difference ks vc other = Some k"
      by (cases "first_difference ks vc other") (simp_all add: Compare_first_difference)
    then show ?thesis by (simp add: Compare_first_difference)
  qed
  have code: "result_code (spec_compare vc other) = Some (Compare ks ks' vc other)"
    if "spec_compare vc other \<noteq> CONCURRENT"
    using that C(1) C(2) C(3) by (cases "spec_compare vc other") simp_all
  show ?thesis
    using Compare_values [of ks ks' vc other] C(1) C(2) C(3) conc code by blast
qed

text \<open>The theorem at \<open>{A: 1, B: 2}\<close> against \<open>{A: 1, B: 3}\<close>, visiting B first.\<close>

theorem Compare_three_valued_witness:
  "range_order [''B'', ''A''] (Timestamps clock_A1_B2) \<and>
   dom (Timestamps clock_A1_B3) \<subseteq> dom (Timestamps clock_A1_B2) \<and>
   spec_compare clock_A1_B2 clock_A1_B3 = LESS \<and>
   Compare [''B'', ''A''] [''A'', ''B''] clock_A1_B2 clock_A1_B3 = - 1"
proof -
  have h1: "range_order [''B'', ''A''] (Timestamps clock_A1_B2)"
    by (auto simp add: clock_eval)
  have h2: "dom (Timestamps clock_A1_B3) \<subseteq> dom (Timestamps clock_A1_B2)"
    by (simp add: clock_eval)
  have h3: "spec_compare clock_A1_B2 clock_A1_B3 = LESS"
    by (simp add: clock_eval)
  from Compare_three_valued [OF h1 h2, of "[''A'', ''B'']"] h1 h2 h3
  show ?thesis by blast
qed

text \<open>
  C6 as the claim states it fails: \<open>{A: 1, B: 2}\<close> compared with \<open>{A: 2, B: 1}\<close> visiting
  A first gives -1, and the reverse comparison visiting B first gives -1 as well, not 1.
\<close>

theorem Compare_not_inverse_counterexample:
  "range_order [''A'', ''B''] (Timestamps clock_A1_B2) \<and>
   range_order [''B'', ''A''] (Timestamps clock_A2_B1) \<and>
   Compare [''A'', ''B''] [''A'', ''B''] clock_A1_B2 clock_A2_B1 = - 1 \<and>
   Compare [''B'', ''A''] [''A'', ''B''] clock_A2_B1 clock_A1_B2 = - 1 \<and>
   Compare [''B'', ''A''] [''A'', ''B''] clock_A2_B1 clock_A1_B2 \<noteq> 1"
  by (auto simp add: clock_eval)

text \<open>
  C6, amended. For two clocks over the same set of keys, in any visiting orders:
  \<^verbatim>\<open>a.Compare(b)\<close> is 0 exactly when \<^verbatim>\<open>b.Compare(a)\<close> is 0; and when one clock dominates
  the other (every entry at most the other's), or when both calls visit the keys in the
  same order, \<^verbatim>\<open>a.Compare(b)\<close> is -1 exactly when \<^verbatim>\<open>b.Compare(a)\<close> is 1, and 1 exactly when
  the other is -1. Both results are among -1, 0, 1: no call returns CONCURRENT.
\<close>

theorem Compare_inverse_when_comparable:
  assumes "range_order ksA (Timestamps a)"
    and "range_order ksB (Timestamps b)"
    and "dom (Timestamps a) = dom (Timestamps b)"
  shows "(Compare ksA ksA' a b = 0 \<longleftrightarrow> Compare ksB ksB' b a = 0) \<and>
    (entries_le a b \<or> entries_le b a \<or> ksA = ksB \<longrightarrow>
       (Compare ksA ksA' a b = - 1 \<longleftrightarrow> Compare ksB ksB' b a = 1) \<and>
       (Compare ksA ksA' a b = 1 \<longleftrightarrow> Compare ksB ksB' b a = - 1)) \<and>
    Compare ksA ksA' a b \<in> {- 1, 0, 1} \<and> Compare ksB ksB' b a \<in> {- 1, 0, 1}"
proof -
  from assms have A: "set ksA = dom (Timestamps a)" and B: "set ksB = dom (Timestamps a)"
    by (simp_all add: range_order_def)
  have U: "dom (Timestamps a) \<union> dom (Timestamps b) = dom (Timestamps a)"
    "dom (Timestamps b) \<union> dom (Timestamps a) = dom (Timestamps a)"
    using assms(3) by auto
  note VA = Compare_values [of ksA ksA' a b] and VB = Compare_values [of ksB ksB' b a]
  have Z: "Compare ksA ksA' a b = 0 \<longleftrightarrow> Compare ksB ksB' b a = 0"
    unfolding Compare_zero_iff A B by (metis (no_types))
  have le: "(Compare ksA ksA' a b = - 1 \<longleftrightarrow> Compare ksB ksB' b a = 1) \<and>
       (Compare ksA ksA' a b = 1 \<longleftrightarrow> Compare ksB ksB' b a = - 1)"
    if le: "entries_le x y" and xy: "x = a \<and> y = b \<or> x = b \<and> y = a" for x y
  proof -
    from xy have D: "\<And>k. k \<in> dom (Timestamps a) \<Longrightarrow> \<not> GetTimestamp y k <s GetTimestamp x k"
      using entries_le_D [OF le] U by auto
    from xy show ?thesis
    proof
      assume "x = a \<and> y = b"
      with D have "Compare ksA ksA' a b \<noteq> 1" "Compare ksB ksB' b a \<noteq> - 1"
        using Compare_greater_witness [of ksA ksA' a b] Compare_less_witness [of ksB ksB' b a] A B
        by auto
      with VA VB Z show ?thesis by auto
    next
      assume "x = b \<and> y = a"
      with D have "Compare ksA ksA' a b \<noteq> - 1" "Compare ksB ksB' b a \<noteq> 1"
        using Compare_less_witness [of ksA ksA' a b] Compare_greater_witness [of ksB ksB' b a] A B
        by auto
      with VA VB Z show ?thesis by auto
    qed
  qed
  have same: "(Compare ksA ksA' a b = - 1 \<longleftrightarrow> Compare ksB ksB' b a = 1) \<and>
       (Compare ksA ksA' a b = 1 \<longleftrightarrow> Compare ksB ksB' b a = - 1)"
    if "ksA = ksB"
  proof (cases "first_difference ksA a b")
    case None
    then show ?thesis
      using that first_difference_sym [of ksA a b] by (simp add: Compare_first_difference)
  next
    case (Some k)
    then have "GetTimestamp a k \<noteq> GetTimestamp b k"
      by (simp add: first_difference_Some)
    then have "GetTimestamp a k <s GetTimestamp b k \<longleftrightarrow> \<not> GetTimestamp b k <s GetTimestamp a k"
      using signed.less_asym signed_trichotomy by blast
    moreover have "first_difference ksB b a = Some k"
      using Some that first_difference_sym [of ksA a b] by simp
    ultimately show ?thesis
      using Some by (simp add: Compare_first_difference)
  qed
  show ?thesis using Z le same VA VB by blast
qed

text \<open>The theorem at \<open>{A: 1, B: 2}\<close> and \<open>{A: 1, B: 3}\<close>, visited in opposite orders.\<close>

theorem Compare_inverse_when_comparable_witness:
  "range_order [''B'', ''A''] (Timestamps clock_A1_B2) \<and>
   range_order [''A'', ''B''] (Timestamps clock_A1_B3) \<and>
   dom (Timestamps clock_A1_B2) = dom (Timestamps clock_A1_B3) \<and>
   entries_le clock_A1_B2 clock_A1_B3 \<and>
   Compare [''B'', ''A''] [''A'', ''B''] clock_A1_B2 clock_A1_B3 = - 1 \<and>
   Compare [''A'', ''B''] [''B'', ''A''] clock_A1_B3 clock_A1_B2 = 1"
proof -
  have h1: "range_order [''B'', ''A''] (Timestamps clock_A1_B2)"
    by (auto simp add: clock_eval)
  have h2: "range_order [''A'', ''B''] (Timestamps clock_A1_B3)"
    by (auto simp add: clock_eval)
  have h3: "dom (Timestamps clock_A1_B2) = dom (Timestamps clock_A1_B3)"
    by (simp add: clock_eval)
  have h4: "entries_le clock_A1_B2 clock_A1_B3"
    by (simp add: clock_eval)
  have h5: "Compare [''B'', ''A''] [''A'', ''B''] clock_A1_B2 clock_A1_B3 = - 1"
    by (simp add: clock_eval)
  from Compare_inverse_when_comparable [OF h1 h2 h3, of "[''A'', ''B'']" "[''B'', ''A'']"] h1 h2 h3 h4 h5
  show ?thesis by blast
qed


section \<open>Verification accepts everything\<close>

text \<open>
  C1 as the claim states it fails: \<^verbatim>\<open>VerifyClockUpdate\<close> returns true for an update whose
  signature is empty, for an update signed with the key of node 1 and checked against the
  public key of node 2, and for an update whose timestamp was changed after signing.
\<close>

theorem VerifyClockUpdate_accepts_counterexample:
  "VerifyClockUpdate example_Sum256 (Public (scenario_key 1))
     \<lparr>NodeID = ''A'', Timestamp = 1700000000, Signature = []\<rparr> \<and>
   SignClockUpdate example_Sum256 example_Sign (scenario_key 1)
     \<lparr>NodeID = ''A'', Timestamp = 1700000000, Signature = []\<rparr> = Inr ''0102:0263'' \<and>
   Public (scenario_key 2) \<noteq> Public (scenario_key 1) \<and>
   VerifyClockUpdate example_Sum256 (Public (scenario_key 2))
     \<lparr>NodeID = ''A'', Timestamp = 1700000000, Signature = ''0102:0263''\<rparr> \<and>
   VerifyClockUpdate example_Sum256 (Public (scenario_key 1))
     \<lparr>NodeID = ''A'', Timestamp = 1700000001, Signature = ''0102:0263''\<rparr>"
  by (simp add: VerifyClockUpdate_def SignClockUpdate_def example_Sum256_def example_Sign_def
      scenario_key_def signed_message_def fmt_d_def decimal.simps digit_char_def
      EncodeToString_def Bytes_def Bytes_nat.simps)

text \<open>
  C1, amended. For every public key and every update \<^verbatim>\<open>VerifyClockUpdate\<close> returns true:
  whether the signature is empty or not, whichever key produced it, and whatever
  timestamp was signed. In particular an update signed with the private key of a node X
  verifies against the public key of every node Y.
\<close>

theorem VerifyClockUpdate_always_true:
  "VerifyClockUpdate Sum256 publicKey update"
  by (simp add: VerifyClockUpdate_def)


text \<open>Unfolding the signing functions on concrete inputs.\<close>

lemmas sign_eval = VerifyClockUpdate_def SignClockUpdate_def GetClockUpdate_def
  example_Sum256_def example_Sign_def failing_Sign_def scenario_key_def scenario_node_def
  signed_message_def fmt_d_def decimal.simps digit_char_def EncodeToString_def Bytes_def
  Bytes_nat.simps

section \<open>Producing an update\<close>

text \<open>
  C9 as the claim states it fails: when \<^verbatim>\<open>ecdsa.Sign\<close> returns an error, the update of a
  node that is not Byzantine is returned with the empty signature.
\<close>

theorem GetClockUpdate_unsigned_counterexample:
  "\<not> IsByzantine (scenario_node 1 ''A'' False False []) \<and>
   GetClockUpdate example_Sum256 failing_Sign 1700000000 (scenario_node 1 ''A'' False False []) =
     \<lparr>NodeID = ''A'', Timestamp = 1700000000, Signature = []\<rparr>"
  by (simp add: sign_eval)

text \<open>
  C9, amended. \<^verbatim>\<open>GetClockUpdate\<close> returns an update with the node's own ID and the
  current time. For a Byzantine node its signature is empty. For a node that is not
  Byzantine: when signing succeeds with \<open>(r, s)\<close>, the signature is the one
  \<^verbatim>\<open>SignClockUpdate\<close> computes over the message \<^verbatim>\<open>NodeID:Timestamp\<close>, the hexadecimal
  digits of \<open>r\<close> and \<open>s\<close> joined by a colon; when signing returns an error, the signature is
  left empty.
\<close>

theorem GetClockUpdate_signature:
  "NodeID (GetClockUpdate Sum256 Sign now n) = ID n \<and>
   Timestamp (GetClockUpdate Sum256 Sign now n) = now \<and>
   (IsByzantine n \<longrightarrow> Signature (GetClockUpdate Sum256 Sign now n) = []) \<and>
   (\<not> IsByzantine n \<longrightarrow>
      (case Sign (PrivateKey n) (Sum256 (ID n @ '':'' @ fmt_d now)) of
         Inr (r, s) \<Rightarrow>
           SignClockUpdate Sum256 Sign (PrivateKey n) \<lparr>NodeID = ID n, Timestamp = now, Signature = []\<rparr> =
             Inr (EncodeToString (Bytes r) @ '':'' @ EncodeToString (Bytes s)) \<and>
           Signature (GetClockUpdate Sum256 Sign now n) =
             EncodeToString (Bytes r) @ '':'' @ EncodeToString (Bytes s)
       | Inl err \<Rightarrow> Signature (GetClockUpdate Sum256 Sign now n) = []))"
  by (simp add: GetClockUpdate_def SignClockUpdate_def signed_message_def Let_def
      split: sum.splits prod.splits)

text \<open>The theorem at the Byzantine node F, and at node A with a signer that succeeds.\<close>

theorem GetClockUpdate_signature_witness:
  "IsByzantine (scenario_node 6 ''F'' True False [''G'']) \<and>
   Signature (GetClockUpdate example_Sum256 example_Sign 1700000000
                (scenario_node 6 ''F'' True False [''G''])) = [] \<and>
   \<not> IsByzantine (scenario_node 1 ''A'' False False []) \<and>
   example_Sign (PrivateKey (scenario_node 1 ''A'' False False []))
     (example_Sum256 (ID (scenario_node 1 ''A'' False False []) @ '':'' @ fmt_d 1700000000)) =
     Inr (258, 611) \<and>
   Signature (GetClockUpdate example_Sum256 example_Sign 1700000000
                (scenario_node 1 ''A'' False False [])) = ''0102:0263''"
proof -
  let ?F = "scenario_node 6 ''F'' True False [''G'']"
  let ?A = "scenario_node 1 ''A'' False False []"
  have f: "IsByzantine ?F" and a: "\<not> IsByzantine ?A"
    by (simp_all add: scenario_node_def)
  have sg: "example_Sign (PrivateKey ?A) (example_Sum256 (ID ?A @ '':'' @ fmt_d 1700000000)) =
      Inr (258, 611)"
    by (simp add: sign_eval)
  have enc: "EncodeToString (Bytes 258) @ '':'' @ EncodeToString (Bytes 611) = ''0102:0263''"
    by (simp add: sign_eval)
  from GetClockUpdate_signature [of example_Sum256 example_Sign 1700000000 ?F] f
  have 1: "Signature (GetClockUpdate example_Sum256 example_Sign 1700000000 ?F) = []"
    by blast
  from GetClockUpdate_signature [of example_Sum256 example_Sign 1700000000 ?A] a
  have "case example_Sign (PrivateKey ?A) (example_Sum256 (ID ?A @ '':'' @ fmt_d 1700000000)) of
         Inr (r, s) \<Rightarrow>
           SignClockUpdate example_Sum256 example_Sign (PrivateKey ?A)
             \<lparr>NodeID = ID ?A, Timestamp = 1700000000, Signature = []\<rparr> =
             Inr (EncodeToString (Bytes r) @ '':'' @ EncodeToString (Bytes s)) \<and>
           Signature (GetClockUpdate example_Sum256 example_Sign 1700000000 ?A) =
             EncodeToString (Bytes r) @ '':'' @ EncodeToString (Bytes s)
       | Inl err \<Rightarrow> Signature (GetClockUpdate example_Sum256 example_Sign 1700000000 ?A) = []"
    by blast
  then have 2: "Signature (GetClockUpdate example_Sum256 example_Sign 1700000000 ?A) = ''0102:0263''"
    unfolding sg using enc by simp
  from f a sg 1 2 show ?thesis by blast
qed

section \<open>Applying an update\<close>

text \<open>
  C10. A Byzantine receiver returns false and stays as it was, clock included. A receiver
  that is not Byzantine returns true and stores the update's timestamp under the update's
  node ID. Neither the result nor the node afterwards depends on the signature of the
  update.
\<close>

theorem VerifyAndApplyClockUpdate_outcome:
  "(IsByzantine n \<longrightarrow> VerifyAndApplyClockUpdate n update = (False, n)) \<and>
   (\<not> IsByzantine n \<longrightarrow>
      VerifyAndApplyClockUpdate n update =
        (True, n\<lparr>VectorClock := Update (VectorClock n) (NodeID update) (Timestamp update)\<rparr>) \<and>
      GetTimestamp (VectorClock (snd (VerifyAndApplyClockUpdate n update))) (NodeID update) =
        Timestamp update) \<and>
   VerifyAndApplyClockUpdate n (update\<lparr>Signature := sg\<rparr>) = VerifyAndApplyClockUpdate n update"
  by (simp add: VerifyAndApplyClockUpdate_def GetTimestamp_Update)

text \<open>The theorem at the Byzantine node F and at node B.\<close>

theorem VerifyAndApplyClockUpdate_outcome_witness:
  "IsByzantine (scenario_node 6 ''F'' True False [''G'']) \<and>
   VerifyAndApplyClockUpdate (scenario_node 6 ''F'' True False [''G''])
     \<lparr>NodeID = ''A'', Timestamp = 5, Signature = ''0102:0263''\<rparr> =
     (False, scenario_node 6 ''F'' True False [''G'']) \<and>
   \<not> IsByzantine (scenario_node 2 ''B'' False False []) \<and>
   GetTimestamp (VectorClock (snd (VerifyAndApplyClockUpdate (scenario_node 2 ''B'' False False [])
     \<lparr>NodeID = ''A'', Timestamp = 5, Signature = []\<rparr>))) ''A'' = 5"
proof -
  let ?F = "scenario_node 6 ''F'' True False [''G'']"
  let ?B = "scenario_node 2 ''B'' False False []"
  have f: "IsByzantine ?F" and b: "\<not> IsByzantine ?B"
    by (simp_all add: scenario_node_def)
  from VerifyAndApplyClockUpdate_outcome
         [of ?F "\<lparr>NodeID = ''A'', Timestamp = 5, Signature = ''0102:0263''\<rparr>" "[]"] f
  have 1: "VerifyAndApplyClockUpdate ?F \<lparr>NodeID = ''A'', Timestamp = 5, Signature = ''0102:0263''\<rparr> =
     (False, ?F)" by blast
  from VerifyAndApplyClockUpdate_outcome
         [of ?B "\<lparr>NodeID = ''A'', Timestamp = 5, Signature = []\<rparr>" "[]"] b
  have 2: "GetTimestamp (VectorClock (snd (VerifyAndApplyClockUpdate ?B
     \<lparr>NodeID = ''A'', Timestamp = 5, Signature = []\<rparr>))) ''A'' = 5"
    unfolding ClockUpdate.simps by blast
  from f b 1 2 show ?thesis by blast
qed

section \<open>Registering a node\<close>

text \<open>Unfolding the registry operations on the concrete systems.\<close>

lemmas system_eval = AddNode_def NewSystem_def SetLeader_def SetPartition_def IsPartitioned_def
  scenario_system_def scenario_heap_def duplicate_heap_def scenario_node_def
  system_D_flagged_def system_ABC_flagged_def

text \<open>
  C8 as the claim states it fails: registering a second node with the ID A does not fail,
  and the registration of A is no longer the first node.
\<close>

theorem AddNode_duplicate_counterexample:
  "ID (duplicate_heap 0) = ''A'' \<and> ID (duplicate_heap 7) = ''A'' \<and>
   Nodes (AddNode duplicate_heap NewSystem 0) ''A'' = Some 0 \<and>
   Nodes (AddNode duplicate_heap (AddNode duplicate_heap NewSystem 0) 7) ''A'' = Some 7 \<and>
   Nodes (AddNode duplicate_heap (AddNode duplicate_heap NewSystem 0) 7) ''A'' \<noteq>
     Nodes (AddNode duplicate_heap NewSystem 0) ''A''"
  by (simp add: system_eval)

text \<open>
  C8, amended. \<^verbatim>\<open>AddNode\<close> registers the node under its ID and has no failure: when the
  ID is already registered, the new node replaces the old registration. Every other
  registration, the leader and the partition table stay as they were.
\<close>

theorem AddNode_overwrites:
  "Nodes (AddNode h s node) (ID (h node)) = Some node \<and>
   (\<forall>other. other \<noteq> ID (h node) \<longrightarrow> Nodes (AddNode h s node) other = Nodes s other) \<and>
   Leader (AddNode h s node) = Leader s \<and>
   Partition (AddNode h s node) = Partition s"
  by (simp add: AddNode_def)

text \<open>The theorem at the scenario's system, registering a second node named A.\<close>

theorem AddNode_overwrites_witness:
  "''B'' \<noteq> ID (duplicate_heap 7) \<and>
   Nodes (AddNode duplicate_heap scenario_system 7) ''A'' = Some 7 \<and>
   Nodes (AddNode duplicate_heap scenario_system 7) ''B'' = Some 1"
proof -
  have i: "ID (duplicate_heap 7) = ''A''" and b: "Nodes scenario_system ''B'' = Some 1"
    by (simp_all add: system_eval)
  from AddNode_overwrites [of duplicate_heap scenario_system 7] i b
  show ?thesis by simp
qed

section \<open>Quorum\<close>

text \<open>
  C4. For \<open>0 \<le> f < n\<close>, \<^verbatim>\<open>minimumK(n, f)\<close> is \<open>n - f + 1\<close>; for \<open>f \<ge> n\<close> or \<open>f < 0\<close> it
  fails with \<^verbatim>\<open>InvalidParametersError\<close>. So \<^verbatim>\<open>minimumK(7, 2) = 6\<close>, \<^verbatim>\<open>hasQuorum(6, 7, 2)\<close>
  is true and \<^verbatim>\<open>hasQuorum(5, 7, 2)\<close> is false. The expression the source evaluates in
  \<^verbatim>\<open>TestBFTMinimumK\<close> gives 6 as well.
\<close>

theorem minimumK_spec:
  "(0 \<le> f \<and> f < n \<longrightarrow> minimumK n f = Inr (n - f + 1)) \<and>
   (f \<ge> n \<or> f < 0 \<longrightarrow> minimumK n f = Inl InvalidParametersError) \<and>
   minimumK 7 2 = Inr 6 \<and>
   hasQuorum 6 7 2 = Inr True \<and>
   hasQuorum 5 7 2 = Inr False \<and>
   TestBFTMinimumK_k 7 2 = 6"
  by (auto simp: minimumK_def hasQuorum_def TestBFTMinimumK_k_def)

text \<open>The theorem at \<open>n = 10, f = 3\<close> and at \<open>n = 3, f = 3\<close>.\<close>

theorem minimumK_spec_witness:
  "(0::int) \<le> 3 \<and> (3::int) < 10 \<and> minimumK 10 3 = Inr 8 \<and>
   (3::int) \<ge> 3 \<and> minimumK 3 3 = Inl InvalidParametersError"
proof -
  from minimumK_spec [of 3 10] have "minimumK 10 3 = Inr (10 - 3 + 1)" by simp
  moreover from minimumK_spec [of 3 3] have "minimumK 3 3 = Inl InvalidParametersError" by simp
  ultimately show ?thesis by simp
qed


section \<open>Propagation\<close>

lemma VerifyAndApplyClockUpdate_twice:
  "snd (VerifyAndApplyClockUpdate (snd (VerifyAndApplyClockUpdate n update)) update) =
   snd (VerifyAndApplyClockUpdate n update)"
  by (simp add: VerifyAndApplyClockUpdate_def Update_def)

lemma targets_Nil: "targets [] system = {}"
  by (simp add: targets_def)

lemma targets_Cons:
  "targets (k # ks) system =
     (if IsPartitioned system k then targets ks system
      else case Nodes system k of None \<Rightarrow> targets ks system
           | Some b \<Rightarrow> insert b (targets ks system))"
  by (simp add: targets_def split: option.splits)

lemma targets_iff:
  "b \<in> targets ks system \<longleftrightarrow>
     (\<exists>k \<in> set ks. \<not> IsPartitioned system k \<and> Nodes system k = Some b)"
  by (induction ks) (auto simp: targets_Nil targets_Cons split: option.splits)

lemma Propagate_loop_blocks:
  "n \<in> targets ks system \<Longrightarrow> Propagate_loop ks n update system h = None"
proof (induction ks arbitrary: h)
  case Nil
  then show ?case by (simp add: targets_Nil)
next
  case (Cons k ks)
  then show ?case
    by (auto simp: targets_Cons split: if_splits option.splits)
qed

lemma Propagate_loop_delivers:
  "n \<notin> targets ks system \<Longrightarrow>
   Propagate_loop ks n update system h =
     Some (\<lambda>b. if b \<in> targets ks system
               then snd (VerifyAndApplyClockUpdate (h b) update) else h b)"
proof (induction ks arbitrary: h)
  case Nil
  then show ?case by (simp add: targets_Nil)
next
  case (Cons k ks)
  show ?case
  proof (cases "IsPartitioned system k")
    case True
    with Cons show ?thesis by (simp add: targets_Cons)
  next
    case False
    show ?thesis
    proof (cases "Nodes system k")
      case None
      with False Cons show ?thesis by (simp add: targets_Cons)
    next
      case (Some c)
      with False Cons.prems have cn: "c \<noteq> n" and rest: "n \<notin> targets ks system"
        by (auto simp: targets_Cons)
      let ?h = "h(c := snd (VerifyAndApplyClockUpdate (h c) update))"
      have "Propagate_loop (k # ks) n update system h = Propagate_loop ks n update system ?h"
        using False Some cn by simp
      also have "\<dots> = Some (\<lambda>b. if b \<in> targets ks system
               then snd (VerifyAndApplyClockUpdate (?h b) update) else ?h b)"
        by (rule Cons.IH [OF rest])
      also have "(\<lambda>b. if b \<in> targets ks system
               then snd (VerifyAndApplyClockUpdate (?h b) update) else ?h b) =
          (\<lambda>b. if b \<in> targets (k # ks) system
               then snd (VerifyAndApplyClockUpdate (h b) update) else h b)"
        using False Some
        by (auto simp: targets_Cons VerifyAndApplyClockUpdate_twice fun_eq_iff)
      finally show ?thesis .
    qed
  qed
qed


text \<open>Unfolding propagation on the concrete heaps and systems.\<close>

lemmas propagate_eval = PropagateClockUpdate_def VerifyAndApplyClockUpdate_def
  AddNode_def NewSystem_def SetLeader_def SetPartition_def IsPartitioned_def
  scenario_system_def scenario_heap_def duplicate_heap_def scenario_node_def
  system_D_flagged_def system_ABC_flagged_def selfloop_heap_def update_from_A_def
  update_from_D_def Update_def NewVectorClock_def GetTimestamp_def map_index_def
  delivered_to_def targets_def


text \<open>
  C3 as the claim states it fails: the partition table has one flag per node and no
  directed edges, and no marking of it gives the scenario of the claim. With the table
  the source leaves (empty), a propagation from D is not suppressed: it reaches A, and E
  as well. With D flagged, the propagation from A no longer reaches D, and D still
  reaches A. With A, B and C flagged, the propagation from A no longer reaches B and C.
\<close>

theorem PropagateClockUpdate_per_node_counterexample:
  "Partition scenario_system = Map.empty \<and>
   PropagateClockUpdate scenario_heap 3 update_from_D scenario_system \<noteq> None \<and>
   GetTimestamp (VectorClock (the (PropagateClockUpdate scenario_heap 3 update_from_D
      scenario_system) 0)) ''D'' = 1700000001 \<and>
   GetTimestamp (VectorClock (the (PropagateClockUpdate scenario_heap 3 update_from_D
      scenario_system) 4)) ''D'' = 1700000001 \<and>
   PropagateClockUpdate scenario_heap 0 update_from_A system_D_flagged \<noteq> None \<and>
   the (PropagateClockUpdate scenario_heap 0 update_from_A system_D_flagged) 3 = scenario_heap 3 \<and>
   PropagateClockUpdate scenario_heap 3 update_from_D system_D_flagged \<noteq> None \<and>
   GetTimestamp (VectorClock (the (PropagateClockUpdate scenario_heap 3 update_from_D
      system_D_flagged) 0)) ''D'' = 1700000001 \<and>
   PropagateClockUpdate scenario_heap 0 update_from_A system_ABC_flagged \<noteq> None \<and>
   the (PropagateClockUpdate scenario_heap 0 update_from_A system_ABC_flagged) 1 = scenario_heap 1 \<and>
   the (PropagateClockUpdate scenario_heap 0 update_from_A system_ABC_flagged) 2 = scenario_heap 2"
  by (simp add: propagate_eval)

text \<open>The scenario, for an update produced at A at any time and with any signer.\<close>

lemma scenario_propagate_from_A:
  "\<exists>h'. PropagateClockUpdate scenario_heap 0
           (GetClockUpdate Sum256 Sign now (scenario_heap 0)) scenario_system = Some h' \<and>
        VectorClock (h' 1) = Update NewVectorClock ''A'' now \<and>
        VectorClock (h' 2) = Update NewVectorClock ''A'' now \<and>
        VectorClock (h' 3) = Update NewVectorClock ''A'' now \<and>
        h' 4 = scenario_heap 4 \<and> h' 0 = scenario_heap 0 \<and>
        h' 5 = scenario_heap 5 \<and> h' 6 = scenario_heap 6"
  by (simp add: propagate_eval GetClockUpdate_def Let_def split: sum.splits)

lemma scenario_propagate_D_flagged:
  "\<exists>h'. PropagateClockUpdate scenario_heap 0
           (GetClockUpdate Sum256 Sign now (scenario_heap 0)) system_D_flagged = Some h' \<and>
        VectorClock (h' 1) = Update NewVectorClock ''A'' now \<and>
        VectorClock (h' 2) = Update NewVectorClock ''A'' now \<and>
        h' 3 = scenario_heap 3 \<and> h' 4 = scenario_heap 4"
  by (simp add: propagate_eval GetClockUpdate_def Let_def split: sum.splits)

text \<open>
  C3, amended. \<^verbatim>\<open>PropagateClockUpdate\<close> from the node \<open>n\<close> skips exactly the neighbours
  whose own ID is flagged in the per-node partition table (whoever sends) and the
  neighbour IDs that are not registered; it calls \<^verbatim>\<open>VerifyAndApplyClockUpdate\<close> on every
  other neighbour and leaves all other nodes as they were. When one of those neighbours
  is \<open>n\<close> itself, the call never returns. In the topology of \<^verbatim>\<open>SimulatePartition\<close>, with the
  partition table as the source leaves it, an update produced at A and propagated from A
  reaches B, C and D, and E, F, G and A stay unchanged; once D is flagged in the table,
  the same propagation reaches B and C only.
\<close>

theorem PropagateClockUpdate_delivery:
  "(b \<in> delivered_to h n system \<longleftrightarrow>
      (\<exists>neighborID \<in> set (Neighbors (h n)).
          \<not> IsPartitioned system neighborID \<and> Nodes system neighborID = Some b)) \<and>
   (n \<notin> delivered_to h n system \<longrightarrow>
      PropagateClockUpdate h n update system =
        Some (\<lambda>b. if b \<in> delivered_to h n system
                  then snd (VerifyAndApplyClockUpdate (h b) update) else h b)) \<and>
   (n \<in> delivered_to h n system \<longrightarrow> PropagateClockUpdate h n update system = None) \<and>
   (\<exists>h'. PropagateClockUpdate scenario_heap 0
           (GetClockUpdate Sum256 Sign now (scenario_heap 0)) scenario_system = Some h' \<and>
        VectorClock (h' 1) = Update NewVectorClock ''A'' now \<and>
        VectorClock (h' 2) = Update NewVectorClock ''A'' now \<and>
        VectorClock (h' 3) = Update NewVectorClock ''A'' now \<and>
        h' 4 = scenario_heap 4 \<and> h' 0 = scenario_heap 0 \<and>
        h' 5 = scenario_heap 5 \<and> h' 6 = scenario_heap 6) \<and>
   (\<exists>h'. PropagateClockUpdate scenario_heap 0
           (GetClockUpdate Sum256 Sign now (scenario_heap 0)) system_D_flagged = Some h' \<and>
        VectorClock (h' 1) = Update NewVectorClock ''A'' now \<and>
        VectorClock (h' 2) = Update NewVectorClock ''A'' now \<and>
        h' 3 = scenario_heap 3 \<and> h' 4 = scenario_heap 4)"
proof -
  have 1: "b \<in> delivered_to h n system \<longleftrightarrow>
      (\<exists>neighborID \<in> set (Neighbors (h n)).
          \<not> IsPartitioned system neighborID \<and> Nodes system neighborID = Some b)"
    by (simp add: delivered_to_def targets_iff)
  have 2: "PropagateClockUpdate h n update system =
        Some (\<lambda>b. if b \<in> delivered_to h n system
                  then snd (VerifyAndApplyClockUpdate (h b) update) else h b)"
    if "n \<notin> delivered_to h n system"
    using that Propagate_loop_delivers [of n "Neighbors (h n)" system update h]
    by (simp add: delivered_to_def PropagateClockUpdate_def)
  have 3: "PropagateClockUpdate h n update system = None" if "n \<in> delivered_to h n system"
    using that Propagate_loop_blocks [of n "Neighbors (h n)" system update h]
    by (simp add: delivered_to_def PropagateClockUpdate_def)
  from 1 2 3 scenario_propagate_from_A [of Sum256 Sign now]
    scenario_propagate_D_flagged [of Sum256 Sign now]
  show ?thesis by blast
qed

text \<open>
  The theorem at node A of the scenario, which delivers to B, C and D, and at a node A
  that lists itself as a neighbour.
\<close>

theorem PropagateClockUpdate_delivery_witness:
  "0 \<notin> delivered_to scenario_heap 0 scenario_system \<and>
   delivered_to scenario_heap 0 scenario_system = {1, 2, 3} \<and>
   PropagateClockUpdate scenario_heap 0 update_from_A scenario_system =
     Some (\<lambda>b. if b \<in> delivered_to scenario_heap 0 scenario_system
               then snd (VerifyAndApplyClockUpdate (scenario_heap b) update_from_A)
               else scenario_heap b) \<and>
   0 \<in> delivered_to selfloop_heap 0 scenario_system \<and>
   PropagateClockUpdate selfloop_heap 0 update_from_A scenario_system = None"
proof -
  have d: "delivered_to scenario_heap 0 scenario_system = {1, 2, 3}"
    by (auto simp add: propagate_eval)
  then have a: "0 \<notin> delivered_to scenario_heap 0 scenario_system"
    by simp
  have s: "0 \<in> delivered_to selfloop_heap 0 scenario_system"
    by (simp add: propagate_eval)
  from PropagateClockUpdate_delivery [of 0 scenario_heap 0 scenario_system update_from_A] a
  have 1: "PropagateClockUpdate scenario_heap 0 update_from_A scenario_system =
     Some (\<lambda>b. if b \<in> delivered_to scenario_heap 0 scenario_system
               then snd (VerifyAndApplyClockUpdate (scenario_heap b) update_from_A)
               else scenario_heap b)"
    by blast
  from PropagateClockUpdate_delivery [of 0 selfloop_heap 0 scenario_system update_from_A] s
  have 2: "PropagateClockUpdate selfloop_heap 0 update_from_A scenario_system = None"
    by blast
  from a d 1 s 2 show ?thesis by blast
qed


end
